theory Spec2Isabelle
  imports Main
begin

section \<open>Values, errors and the remote client's data\<close>

text \<open>
  The provider glue of \<^verbatim>\<open>rs/resource.go\<close> and \<^verbatim>\<open>rs/resource_deployment.go\<close>
  moves dynamically typed values (Go's \<^verbatim>\<open>interface{}\<close>) between the host's resource
  data and the remote client. \<open>VNil\<close> is the nil interface value.
\<close>

datatype val = VNil | VBool bool | VString string | VInt int

text \<open>\<^verbatim>\<open>rsc.Fields\<close> is a Go map from field names to values.\<close>

type_synonym Fields = "string \<rightharpoonup> val"

text \<open>
  Go compares errors by identity. \<open>ErrNotFound\<close> is the client's sentinel
  \<^verbatim>\<open>rsc.ErrNotFound\<close>; \<open>InvalidResourceID s\<close> is the value built by
  \<^verbatim>\<open>fmt.Errorf("invalid resource ID %q", s)\<close> in \<^verbatim>\<open>locator\<close>; \<open>ErrorsNew m\<close> is
  \<^verbatim>\<open>errors.New(m)\<close>; \<open>ClientError m\<close> stands for every other error the remote client
  may hand back.
\<close>

datatype error = ErrNotFound | InvalidResourceID string | ErrorsNew string | ClientError string

record Locator =
  Namespace :: string
  Href :: string

text \<open>
  \<^verbatim>\<open>rsc.Resource\<close>: the code passes \<^verbatim>\<open>res.Locator\<close> where a \<^verbatim>\<open>*rsc.Locator\<close> is
  expected, so the field is a pointer and may be nil (\<open>None\<close>).
\<close>

record Resource =
  Locator :: "Locator option"
  Fields :: Fields

section \<open>The deployment schema\<close>

datatype ValueType = TypeBool | TypeString

text \<open>
  The validation callback of \<^verbatim>\<open>server_tag_scope\<close>. The Go comparison \<^verbatim>\<open>v == ""\<close> of an
  interface value with a string constant holds only for a string of that content.
  The result is the pair (warnings, errors).
\<close>

definition server_tag_scope_ValidateFunc :: "val \<Rightarrow> string \<Rightarrow> string list \<times> error list" where
  \<open>server_tag_scope_ValidateFunc v k =
     (if v = VString '''' \<or> v = VString ''account'' \<or> v = VString ''deployment''
      then ([], [])
      else ([], [ErrorsNew ''server_tag_scope must be "account" or "deployment"'']))\<close>

record Schema =
  Type :: ValueType
  Required :: bool
  Optional :: bool
  ForceNew :: bool
  InputDefault :: string
  ValidateFunc :: "(val \<Rightarrow> string \<Rightarrow> string list \<times> error list) option"

definition string_attr :: "bool \<Rightarrow> Schema" where
  "string_attr req =
     \<lparr>Type = TypeString, Required = req, Optional = (\<not> req), ForceNew = False,
      InputDefault = '''', ValidateFunc = None\<rparr>"

definition deploymentSchema :: "string \<rightharpoonup> Schema" where
  "deploymentSchema =
     [''name'' \<mapsto> string_attr True,
      ''description'' \<mapsto> string_attr False,
      ''resource_group_href'' \<mapsto> string_attr False,
      ''locked'' \<mapsto>
        \<lparr>Type = TypeBool, Required = False, Optional = True, ForceNew = False,
         InputDefault = '''', ValidateFunc = None\<rparr>,
      ''server_tag_scope'' \<mapsto>
        \<lparr>Type = TypeString, Required = False, Optional = True, ForceNew = True,
         InputDefault = ''deployment'',
         ValidateFunc = Some server_tag_scope_ValidateFunc\<rparr>]"

section \<open>The host's resource data\<close>

text \<open>
  \<^verbatim>\<open>schema.ResourceData\<close> belongs to the host framework. The model keeps what the glue
  code reads and writes: the identifier, the attribute store and the partial-state
  bookkeeping. The several layers the host merges on a read (configuration, state,
  diff, values set by the provider) are one store here.
\<close>

record ResourceData =
  d_Id :: string
  attrs :: "string \<rightharpoonup> val"
  partial :: bool
  partialMap :: "string set"

definition Zero :: "ValueType \<Rightarrow> val" where
  "Zero t = (case t of TypeBool \<Rightarrow> VBool False | TypeString \<Rightarrow> VString '''')"

definition type_ok :: "ValueType \<Rightarrow> val \<Rightarrow> bool" where
  "type_ok t v =
     (case (t, v) of (TypeBool, VBool _) \<Rightarrow> True | (TypeString, VString _) \<Rightarrow> True | _ \<Rightarrow> False)"

text \<open>\<^verbatim>\<open>d.Get(k)\<close>: the stored value, or the zero value of the attribute's type.\<close>

definition d_Get :: "ResourceData \<Rightarrow> string \<Rightarrow> val" where
  "d_Get d k =
     (case attrs d k of
        Some v \<Rightarrow> v
      | None \<Rightarrow> (case deploymentSchema k of Some s \<Rightarrow> Zero (Type s) | None \<Rightarrow> VNil))"

text \<open>
  \<^verbatim>\<open>d.GetOk(k)\<close>: the value of \<^verbatim>\<open>d.Get(k)\<close>, and whether the attribute is set to a
  value other than the zero value of its type.
\<close>

definition d_GetOk :: "ResourceData \<Rightarrow> string \<Rightarrow> val \<times> bool" where
  "d_GetOk d k =
     (d_Get d k,
      (case attrs d k of
         None \<Rightarrow> False
       | Some v \<Rightarrow> (case deploymentSchema k of Some s \<Rightarrow> v \<noteq> Zero (Type s) | None \<Rightarrow> False)))"

text \<open>
  \<^verbatim>\<open>d.Set(k, v)\<close> writes an attribute of the schema and returns an error, which the glue
  code never looks at, for a key the schema does not have. A nil value clears the
  attribute: it reads as the zero value of its type afterwards, and \<^verbatim>\<open>d.GetOk\<close> no
  longer reports it as set. A value of the attribute's type is stored; a value of
  another type is refused with an error, and the attribute keeps what it held. The
  identifier is not an attribute: \<^verbatim>\<open>d.Set\<close> never touches it.
\<close>

definition d_Set :: "ResourceData \<Rightarrow> string \<Rightarrow> val \<Rightarrow> ResourceData" where
  "d_Set d k v =
     (case deploymentSchema k of
        None \<Rightarrow> d
      | Some s \<Rightarrow>
          if v = VNil then d\<lparr>attrs := (attrs d)(k \<mapsto> Zero (Type s))\<rparr>
          else if type_ok (Type s) v then d\<lparr>attrs := (attrs d)(k \<mapsto> v)\<rparr>
          else d)"

definition d_SetId :: "ResourceData \<Rightarrow> string \<Rightarrow> ResourceData" where
  "d_SetId d s = d\<lparr>d_Id := s\<rparr>"

definition d_Partial :: "ResourceData \<Rightarrow> bool \<Rightarrow> ResourceData" where
  "d_Partial d on = (if on then d\<lparr>partial := True\<rparr> else d\<lparr>partial := False, partialMap := {}\<rparr>)"

definition d_SetPartial :: "ResourceData \<Rightarrow> string \<Rightarrow> ResourceData" where
  "d_SetPartial d k = (if partial d then d\<lparr>partialMap := insert k (partialMap d)\<rparr> else d)"

text \<open>
  The loop \<^verbatim>\<open>for k, v := range res.Fields { d.Set(k, v) }\<close>. A Go map holds each key
  once and \<^verbatim>\<open>d.Set(k, v)\<close> writes the attribute \<open>k\<close> only, so whatever order the
  iteration takes, the attribute \<open>k\<close> ends as the single \<^verbatim>\<open>d.Set(k, v)\<close> leaves it.
\<close>

definition copy_back :: "ResourceData \<Rightarrow> Fields \<Rightarrow> ResourceData" where
  "copy_back d fs =
     d\<lparr>attrs := (\<lambda>k. case fs k of None \<Rightarrow> attrs d k | Some v \<Rightarrow> attrs (d_Set d k v) k)\<rparr>"

section \<open>Locator parsing\<close>

text \<open>
  \<^verbatim>\<open>strings.Split(s, sep)\<close> for a separator of one character: the pieces of \<open>s\<close>
  between the occurrences of \<open>sep\<close>, one more piece than there are occurrences.
  (The last \<open>case\<close> branch is never reached: the result of a split is not empty.)
\<close>

fun strings_Split :: "string \<Rightarrow> char \<Rightarrow> string list" where
  "strings_Split [] sep = [[]]"
| "strings_Split (x # xs) sep =
     (if x = sep then [] # strings_Split xs sep
      else (case strings_Split xs sep of
              p # ps \<Rightarrow> (x # p) # ps
            | [] \<Rightarrow> [[x]]))"

definition locator :: "ResourceData \<Rightarrow> error + Locator" where
  "locator d =
     (let parts = strings_Split (d_Id d) (CHR '':'') in
      if length parts \<noteq> 2 then Inl (InvalidResourceID (d_Id d))
      else Inr \<lparr>Namespace = parts ! 0, Href = parts ! 1\<rparr>)"

section \<open>Field marshalling\<close>

definition deploymentFields :: "ResourceData \<Rightarrow> Fields" where
  "deploymentFields d =
     (let fields = [''name'' \<mapsto> d_Get d ''name''];
          fields = (case d_GetOk d ''description'' of
                      (desc, ok) \<Rightarrow> if ok then fields(''description'' \<mapsto> desc) else fields);
          fields = (case d_GetOk d ''resource_group_href'' of
                      (rghref, ok) \<Rightarrow>
                        if ok then fields(''resource_group_href'' \<mapsto> rghref) else fields);
          fields = (case d_GetOk d ''server_tag_scope'' of
                      (scope, ok) \<Rightarrow>
                        if ok then fields(''server_tag_scope'' \<mapsto> scope) else fields)
      in fields)"

section \<open>The remote client\<close>

text \<open>
  \<^verbatim>\<open>rsc.Client\<close> is an interface of the package \<^verbatim>\<open>rs/rsc\<close>; what the remote service
  answers is a parameter of the model. Every call the glue code issues is appended to a
  trace, and the client's answer to a call may depend on all the calls issued before it,
  which covers any remote state. Pointers are options: a locator argument and a returned
  resource may be nil, and a Go result pair (resource, error) keeps both components.
\<close>

datatype call =
    CallCreate string string Fields
  | CallGet "Locator option"
  | CallUpdate "Locator option" Fields
  | CallDelete "Locator option"
  | CallRun "Locator option" string

record Client =
  Create :: "call list \<Rightarrow> string \<Rightarrow> string \<Rightarrow> Fields \<Rightarrow> Resource option \<times> error option"
  Get :: "call list \<Rightarrow> Locator option \<Rightarrow> Resource option \<times> error option"
  Update :: "call list \<Rightarrow> Locator option \<Rightarrow> Fields \<Rightarrow> error option"
  Delete :: "call list \<Rightarrow> Locator option \<Rightarrow> error option"
  Run :: "call list \<Rightarrow> Locator option \<Rightarrow> string \<Rightarrow> error option"

definition client_Create ::
  "Client \<Rightarrow> string \<Rightarrow> string \<Rightarrow> Fields \<Rightarrow> call list \<Rightarrow> (Resource option \<times> error option) \<times> call list" where
  "client_Create c ns typ fs tr = (Create c tr ns typ fs, tr @ [CallCreate ns typ fs])"

definition client_Get ::
  "Client \<Rightarrow> Locator option \<Rightarrow> call list \<Rightarrow> (Resource option \<times> error option) \<times> call list" where
  "client_Get c loc tr = (Get c tr loc, tr @ [CallGet loc])"

definition client_Update ::
  "Client \<Rightarrow> Locator option \<Rightarrow> Fields \<Rightarrow> call list \<Rightarrow> error option \<times> call list" where
  "client_Update c loc fs tr = (Update c tr loc fs, tr @ [CallUpdate loc fs])"

definition client_Delete ::
  "Client \<Rightarrow> Locator option \<Rightarrow> call list \<Rightarrow> error option \<times> call list" where
  "client_Delete c loc tr = (Delete c tr loc, tr @ [CallDelete loc])"

definition client_Run ::
  "Client \<Rightarrow> Locator option \<Rightarrow> string \<Rightarrow> call list \<Rightarrow> error option \<times> call list" where
  "client_Run c loc rcl tr = (Run c tr loc rcl, tr @ [CallRun loc rcl])"

section \<open>The lifecycle functions\<close>

text \<open>
  A lifecycle function either returns or panics (a nil pointer dereference, a failed
  type assertion). Each takes the client, the resource data and the trace so far, and
  gives back its outcome, the resource data as it leaves them and the extended trace.
\<close>

datatype 'a outcome = Return 'a | Panic

definition handleRSCError :: "ResourceData \<Rightarrow> error \<Rightarrow> ResourceData \<times> error option" where
  "handleRSCError d err =
     (if err = ErrNotFound then (d_SetId d '''', None) else (d, Some err))"

definition resourceRead ::
  "Client \<Rightarrow> ResourceData \<Rightarrow> call list \<Rightarrow> error option outcome \<times> ResourceData \<times> call list" where
  "resourceRead client d tr =
     (case locator d of
        Inl err \<Rightarrow> (Return (Some err), d, tr)
      | Inr loc \<Rightarrow>
          (case client_Get client (Some loc) tr of
             ((res, Some err), tr') \<Rightarrow>
               (case handleRSCError d err of (d', r) \<Rightarrow> (Return r, d', tr'))
           | ((None, None), tr') \<Rightarrow> (Panic, d, tr')
           | ((Some res, None), tr') \<Rightarrow> (Return None, copy_back d (Fields res), tr')))"

definition resourceDelete ::
  "Client \<Rightarrow> ResourceData \<Rightarrow> call list \<Rightarrow> error option outcome \<times> ResourceData \<times> call list" where
  "resourceDelete client d tr =
     (case locator d of
        Inl err \<Rightarrow> (Return (Some err), d, tr)
      | Inr loc \<Rightarrow>
          (case client_Delete client (Some loc) tr of (r, tr') \<Rightarrow> (Return r, d, tr')))"

definition resourceExists ::
  "Client \<Rightarrow> ResourceData \<Rightarrow> call list \<Rightarrow> (bool \<times> error option) outcome \<times> ResourceData \<times> call list" where
  "resourceExists client d tr =
     (case locator d of
        Inl err \<Rightarrow> (Return (False, Some err), d, tr)
      | Inr loc \<Rightarrow>
          (case client_Get client (Some loc) tr of
             ((res, Some err), tr') \<Rightarrow> (Return (False, Some err), d, tr')
           | ((res, None), tr') \<Rightarrow> (Return (res \<noteq> None, None), d, tr')))"

text \<open>
  \<^verbatim>\<open>updateLock\<close> reads the resource data and does not write them. The type assertion
  \<^verbatim>\<open>d.Get("locked").(bool)\<close> panics on a value that is not a boolean.
\<close>

definition updateLock ::
  "ResourceData \<Rightarrow> Client \<Rightarrow> call list \<Rightarrow> error option outcome \<times> call list" where
  "updateLock d client tr =
     (case locator d of
        Inl err \<Rightarrow> (Return (Some err), tr)
      | Inr loc \<Rightarrow>
          (case d_Get d ''locked'' of
             VBool lock \<Rightarrow>
               (if lock
                then (case client_Run client (Some loc) ''@res.lock()'' tr of
                        (r, tr') \<Rightarrow> (Return r, tr'))
                else (case client_Run client (Some loc) ''@res.unlock()'' tr of
                        (r, tr') \<Rightarrow> (Return r, tr')))
           | _ \<Rightarrow> (Panic, tr)))"

text \<open>
  \<^verbatim>\<open>mustLock = ok && locked.(bool)\<close>: the type assertion is evaluated only when \<open>ok\<close>
  holds, and panics on a value that is not a boolean.
\<close>

definition mustLock :: "ResourceData \<Rightarrow> bool outcome" where
  "mustLock d =
     (case d_GetOk d ''locked'' of
        (locked, ok) \<Rightarrow>
          if ok then (case locked of VBool b \<Rightarrow> Return b | _ \<Rightarrow> Panic) else Return False)"

text \<open>
  The last step of create: \<^verbatim>\<open>d.SetId(res.Locator.Namespace + ":" + res.Locator.Href)\<close>,
  which dereferences \<^verbatim>\<open>res.Locator\<close>.
\<close>

definition set_id_last ::
  "ResourceData \<Rightarrow> Resource \<Rightarrow> call list \<Rightarrow> error option outcome \<times> ResourceData \<times> call list" where
  "set_id_last d res tr =
     (case Locator res of
        None \<Rightarrow> (Panic, d, tr)
      | Some l \<Rightarrow> (Return None, d_SetId d (Namespace l @ '':'' @ Href l), tr))"

definition resourceDeploymentCreate ::
  "Client \<Rightarrow> ResourceData \<Rightarrow> call list \<Rightarrow> error option outcome \<times> ResourceData \<times> call list" where
  "resourceDeploymentCreate client d tr =
     (case mustLock d of
        Panic \<Rightarrow> (Panic, d, tr)
      | Return must \<Rightarrow>
          (case client_Create client ''rs_cm'' ''deployment'' (deploymentFields d) tr of
             ((res, Some err), tr1) \<Rightarrow> (Return (Some err), d, tr1)
           | ((None, None), tr1) \<Rightarrow> (Panic, d, tr1)
           | ((Some res, None), tr1) \<Rightarrow>
               (let d1 = copy_back d (Fields res) in
                if must then
                  (case updateLock d1 client tr1 of
                     (Return (Some err), tr2) \<Rightarrow>
                       (case client_Delete client (Locator res) tr2 of
                          (ignored, tr3) \<Rightarrow> (Return (Some err), d1, tr3))
                   | (Panic, tr2) \<Rightarrow> (Panic, d1, tr2)
                   | (Return None, tr2) \<Rightarrow>
                       set_id_last (d_Set d1 ''locked'' (VBool True)) res tr2)
                else set_id_last d1 res tr1)))"

text \<open>
  \<^verbatim>\<open>resourceDeploymentUpdate\<close> calls \<^verbatim>\<open>handleError(d, err)\<close>, a function of the package
  that the two files do not define. It is a parameter here: given the resource data and
  the error, it gives back the resource data as it leaves them and the error to return.
  It is not handed the client.
\<close>

definition resourceDeploymentUpdate ::
  "(ResourceData \<Rightarrow> error \<Rightarrow> ResourceData \<times> error option) \<Rightarrow>
   Client \<Rightarrow> ResourceData \<Rightarrow> call list \<Rightarrow> error option outcome \<times> ResourceData \<times> call list" where
  "resourceDeploymentUpdate handleError client d0 tr =
     (let d = d_Partial d0 True in
      case locator d of
        Inl err \<Rightarrow> (Return (Some err), d, tr)
      | Inr loc \<Rightarrow>
          (case updateLock d client tr of
             (Panic, tr1) \<Rightarrow> (Panic, d, tr1)
           | (Return (Some err), tr1) \<Rightarrow>
               (case handleError d err of (d', r) \<Rightarrow> (Return r, d', tr1))
           | (Return None, tr1) \<Rightarrow>
               (let d1 = d_SetPartial d ''locked'' in
                case client_Update client (Some loc) (deploymentFields d1) tr1 of
                  (Some err, tr2) \<Rightarrow>
                    (case handleError d1 err of (d', r) \<Rightarrow> (Return r, d', tr2))
                | (None, tr2) \<Rightarrow> (Return None, d_Partial d1 False, tr2))))"

section \<open>Replaying a trace\<close>

text \<open>
  The error the client hands back for a call, given the calls issued before it, and
  whether every call of a run of calls came back without an error.
\<close>

fun call_error :: "Client \<Rightarrow> call list \<Rightarrow> call \<Rightarrow> error option" where
  "call_error c tr (CallCreate ns typ fs) = snd (Create c tr ns typ fs)"
| "call_error c tr (CallGet loc) = snd (Get c tr loc)"
| "call_error c tr (CallUpdate loc fs) = Update c tr loc fs"
| "call_error c tr (CallDelete loc) = Delete c tr loc"
| "call_error c tr (CallRun loc rcl) = Run c tr loc rcl"

fun calls_succeed :: "Client \<Rightarrow> call list \<Rightarrow> call list \<Rightarrow> bool" where
  "calls_succeed c tr [] = True"
| "calls_succeed c tr (x # xs) = (call_error c tr x = None \<and> calls_succeed c (tr @ [x]) xs)"

section \<open>Example inputs\<close>

text \<open>
  A client that gives the same answer to every \<^verbatim>\<open>Create\<close> and \<^verbatim>\<open>Get\<close>, one to every
  \<^verbatim>\<open>Run\<close> and one to every \<^verbatim>\<open>Update\<close> and \<^verbatim>\<open>Delete\<close>; a remote deployment; and
  resource data of a deployment not yet created and of one that exists.
\<close>

definition stub_client ::
  "Resource option \<times> error option \<Rightarrow> error option \<Rightarrow> error option \<Rightarrow> Client" where
  "stub_client answer run_err other_err =
     \<lparr>Create = (\<lambda>tr ns typ fs. answer),
      Get = (\<lambda>tr loc. answer),
      Update = (\<lambda>tr loc fs. other_err),
      Delete = (\<lambda>tr loc. other_err),
      Run = (\<lambda>tr loc rcl. run_err)\<rparr>"

definition deployment_1 :: Resource where
  "deployment_1 =
     \<lparr>Locator = Some \<lparr>Namespace = ''rs_cm'', Href = ''/api/deployments/1''\<rparr>,
      Fields = [''name'' \<mapsto> VString ''web'']\<rparr>"

text \<open>
  The same deployment as the remote service reports it with a nil \<^verbatim>\<open>locked\<close> field,
  a deployment whose href has a colon, and a client that answers every \<^verbatim>\<open>Create\<close> and
  \<^verbatim>\<open>Get\<close> with the given resource and refuses exactly one script of \<^verbatim>\<open>Run\<close>.
\<close>

definition deployment_nil_lock :: Resource where
  "deployment_nil_lock =
     \<lparr>Locator = Some \<lparr>Namespace = ''rs_cm'', Href = ''/api/deployments/1''\<rparr>,
      Fields = [''name'' \<mapsto> VString ''web'', ''locked'' \<mapsto> VNil]\<rparr>"

definition deployment_urn :: Resource where
  "deployment_urn =
     \<lparr>Locator = Some \<lparr>Namespace = ''rs_cm'', Href = ''urn:1''\<rparr>,
      Fields = [''name'' \<mapsto> VString ''web'']\<rparr>"

definition picky_client :: "Resource \<Rightarrow> string \<Rightarrow> Client" where
  "picky_client res refused =
     \<lparr>Create = (\<lambda>tr ns typ fs. (Some res, None)),
      Get = (\<lambda>tr loc. (Some res, None)),
      Update = (\<lambda>tr loc fs. None),
      Delete = (\<lambda>tr loc. None),
      Run = (\<lambda>tr loc rcl. if rcl = refused then Some (ClientError ''refused'') else None)\<rparr>"

definition new_unlocked :: ResourceData where
  "new_unlocked =
     \<lparr>d_Id = '''', attrs = [''name'' \<mapsto> VString ''web''], partial = False, partialMap = {}\<rparr>"

definition new_locked :: ResourceData where
  "new_locked =
     \<lparr>d_Id = '''',
      attrs = [''name'' \<mapsto> VString ''web'', ''locked'' \<mapsto> VBool True],
      partial = False, partialMap = {}\<rparr>"

definition existing :: ResourceData where
  "existing =
     \<lparr>d_Id = ''rs_cm:/api/deployments/1'',
      attrs = [''name'' \<mapsto> VString ''web'', ''locked'' \<mapsto> VBool True],
      partial = False, partialMap = {}\<rparr>"

section \<open>Facts about the split and the resource data\<close>

lemma Split_not_Nil: "strings_Split s c \<noteq> []"
  by (induction s) (auto split: list.splits)

lemma Split_length: "length (strings_Split s c) = Suc (count_list s c)"
  by (induction s) (auto split: list.splits simp: Split_not_Nil)

lemma Split_no_sep: "c \<notin> set s \<Longrightarrow> strings_Split s c = [s]"
  by (induction s) auto

lemma Split_append: "c \<notin> set a \<Longrightarrow> strings_Split (a @ c # b) c = a # strings_Split b c"
  by (induction a) auto

lemma Split_two_iff:
  "strings_Split s c = [a, b] \<longleftrightarrow> s = a @ c # b \<and> c \<notin> set a \<and> c \<notin> set b"
proof
  assume "s = a @ c # b \<and> c \<notin> set a \<and> c \<notin> set b"
  then show "strings_Split s c = [a, b]"
    by (simp add: Split_append Split_no_sep)
next
  assume "strings_Split s c = [a, b]"
  then show "s = a @ c # b \<and> c \<notin> set a \<and> c \<notin> set b"
  proof (induction s arbitrary: a)
    case Nil
    then show ?case by simp
  next
    case (Cons x xs)
    show ?case
    proof (cases "x = c")
      case True
      with Cons.prems have a: "a = []" and r: "strings_Split xs c = [b]" by auto
      from r have "count_list xs c = 0" using Split_length[of xs c] by simp
      then have nb: "c \<notin> set xs" by (simp add: count_list_0_iff)
      with r have "b = xs" by (simp add: Split_no_sep)
      with a nb True show ?thesis by simp
    next
      case False
      with Cons.prems obtain p where p: "strings_Split xs c = [p, b]" and a: "a = x # p"
        by (auto split: list.splits)
      from Cons.IH[OF p] a False show ?thesis by auto
    qed
  qed
qed

lemma locator_Inr_iff:
  "locator d = Inr loc \<longleftrightarrow> strings_Split (d_Id d) (CHR '':'') = [Namespace loc, Href loc]"
proof -
  have two: "length xs = 2 \<longleftrightarrow> (\<exists>a b. xs = [a, b])" for xs :: "string list"
    by (cases xs; cases "tl xs"; auto)
  show ?thesis
    unfolding locator_def Let_def
    by (cases loc) (auto simp: two)
qed

lemma locator_Inl_iff:
  "locator d = Inl e \<longleftrightarrow>
     length (strings_Split (d_Id d) (CHR '':'')) \<noteq> 2 \<and> e = InvalidResourceID (d_Id d)"
  unfolding locator_def Let_def by auto

lemma locator_cong_Id: "d_Id d' = d_Id d \<Longrightarrow> locator d' = locator d"
  by (simp add: locator_def Let_def)

lemma locator_empty_Id: "d_Id d = [] \<Longrightarrow> locator d = Inl (InvalidResourceID [])"
  by (simp add: locator_def)

lemma d_Id_d_SetId [simp]: "d_Id (d_SetId d s) = s"
  by (simp add: d_SetId_def)

lemma d_Id_copy_back [simp]: "d_Id (copy_back d fs) = d_Id d"
  by (simp add: copy_back_def)

lemma d_Id_d_Set [simp]: "d_Id (d_Set d k v) = d_Id d"
  by (simp add: d_Set_def split: option.splits)

lemma d_Id_d_Partial [simp]: "d_Id (d_Partial d on) = d_Id d"
  by (simp add: d_Partial_def)

lemma d_Id_d_SetPartial [simp]: "d_Id (d_SetPartial d k) = d_Id d"
  by (simp add: d_SetPartial_def)

lemma attrs_d_Partial [simp]: "attrs (d_Partial d on) = attrs d"
  by (simp add: d_Partial_def)

lemma attrs_d_SetPartial [simp]: "attrs (d_SetPartial d k) = attrs d"
  by (simp add: d_SetPartial_def)

lemma d_Get_cong_attrs: "attrs d' = attrs d \<Longrightarrow> d_Get d' k = d_Get d k"
  by (simp add: d_Get_def)

lemma deploymentFields_cong_attrs:
  "attrs d' = attrs d \<Longrightarrow> deploymentFields d' = deploymentFields d"
  by (simp add: deploymentFields_def d_GetOk_def d_Get_def)

lemma GetOk_string_key:
  assumes "k \<in> {''description'', ''resource_group_href'', ''server_tag_scope''}"
  shows "snd (d_GetOk d k) \<longleftrightarrow> (\<exists>v. attrs d k = Some v \<and> v \<noteq> VString '''')"
  using assms
  by (auto simp: d_GetOk_def deploymentSchema_def string_attr_def Zero_def split: option.splits)

lemma updateLock_trace:
  "updateLock d c tr = (out, tr') \<Longrightarrow>
     (tr' = tr \<and> (out = Panic \<or> (\<exists>e. out = Return (Some e))))
     \<or> (\<exists>loc rcl. tr' = tr @ [CallRun loc rcl] \<and> out = Return (Run c tr loc rcl))"
  by (auto simp: updateLock_def client_Run_def split: sum.splits val.splits if_splits)

lemma updateLock_no_parse:
  "locator d = Inl e \<Longrightarrow> updateLock d c tr = (Return (Some e), tr)"
  by (simp add: updateLock_def)

section \<open>The locator\<close>

text \<open>
  Claim C3. For every resource identifier, \<^verbatim>\<open>locator\<close> succeeds exactly when splitting
  the identifier on the colon gives exactly two parts, that is when the identifier has
  exactly one colon; the locator it returns has the first part as its namespace and the
  second as its href, so the identifier is the namespace, a colon and the href, neither
  of which contains a colon. For every other identifier (no colon, or more than one) it
  returns the invalid-resource-ID error, which carries the identifier, and no locator.
\<close>

theorem locator_two_parts:
  "((\<exists>loc. locator d = Inr loc) \<longleftrightarrow> length (strings_Split (d_Id d) (CHR '':'')) = 2)
   \<and> (locator d = Inr loc \<longleftrightarrow>
        strings_Split (d_Id d) (CHR '':'') = [Namespace loc, Href loc])
   \<and> (locator d = Inl e \<longleftrightarrow>
        length (strings_Split (d_Id d) (CHR '':'')) \<noteq> 2 \<and> e = InvalidResourceID (d_Id d))
   \<and> length (strings_Split (d_Id d) (CHR '':'')) = Suc (count_list (d_Id d) (CHR '':''))
   \<and> (locator d = Inr loc \<longleftrightarrow>
        d_Id d = Namespace loc @ '':'' @ Href loc
        \<and> CHR '':'' \<notin> set (Namespace loc) \<and> CHR '':'' \<notin> set (Href loc))"
proof -
  have a: "(\<exists>loc. locator d = Inr loc) \<longleftrightarrow> length (strings_Split (d_Id d) (CHR '':'')) = 2"
    unfolding locator_def Let_def by auto
  show ?thesis
    using a locator_Inr_iff[of d loc] locator_Inl_iff[of d e]
      Split_length[of "d_Id d" "CHR '':''"]
      Split_two_iff[of "d_Id d" "CHR '':''" "Namespace loc" "Href loc"]
    by simp
qed

theorem locator_two_parts_witness:
  "locator \<lparr>d_Id = ''rs_cm:/api/deployments/1'', attrs = Map.empty, partial = False,
            partialMap = {}\<rparr>
     = Inr \<lparr>Namespace = ''rs_cm'', Href = ''/api/deployments/1''\<rparr>
   \<and> locator \<lparr>d_Id = ''rs_cm'', attrs = Map.empty, partial = False, partialMap = {}\<rparr>
     = Inl (InvalidResourceID ''rs_cm'')
   \<and> locator \<lparr>d_Id = ''a:b:c'', attrs = Map.empty, partial = False, partialMap = {}\<rparr>
     = Inl (InvalidResourceID ''a:b:c'')"
  using locator_two_parts
    [of "\<lparr>d_Id = ''rs_cm:/api/deployments/1'', attrs = Map.empty, partial = False,
          partialMap = {}\<rparr>"
        "\<lparr>Namespace = ''rs_cm'', Href = ''/api/deployments/1''\<rparr>"]
    locator_two_parts
    [of "\<lparr>d_Id = ''rs_cm'', attrs = Map.empty, partial = False, partialMap = {}\<rparr>" _
        "InvalidResourceID ''rs_cm''"]
    locator_two_parts
    [of "\<lparr>d_Id = ''a:b:c'', attrs = Map.empty, partial = False, partialMap = {}\<rparr>" _
        "InvalidResourceID ''a:b:c''"]
  by simp

lemma id_roundtrip:
  assumes ident: "d_Id d = Namespace l @ '':'' @ Href l"
  shows "(CHR '':'' \<notin> set (Namespace l) \<and> CHR '':'' \<notin> set (Href l) \<longrightarrow> locator d = Inr l)
       \<and> (CHR '':'' \<in> set (Href l) \<longrightarrow>
            locator d = Inl (InvalidResourceID (Namespace l @ '':'' @ Href l)))"
proof -
  have ok: "locator d = Inr l"
    if "CHR '':'' \<notin> set (Namespace l)" "CHR '':'' \<notin> set (Href l)"
    using that ident by (simp add: locator_Inr_iff Split_two_iff)
  have bad: "locator d = Inl (InvalidResourceID (Namespace l @ '':'' @ Href l))"
    if "CHR '':'' \<in> set (Href l)"
  proof -
    from that have "count_list (Href l) (CHR '':'') \<noteq> 0"
      by (simp add: count_list_0_iff)
    then have "count_list (d_Id d) (CHR '':'') \<noteq> 1"
      by (simp add: ident)
    then show ?thesis
      by (simp add: locator_Inl_iff Split_length ident)
  qed
  from ok bad show ?thesis by blast
qed

text \<open>
  Whenever create returns without an error, the create call had returned a resource
  with a locator, and the identifier create leaves is that locator's namespace, a colon
  and its href.
\<close>

lemma create_success_id:
  assumes "fst (resourceDeploymentCreate c d tr) = Return None"
  shows "\<exists>res l. Create c tr ''rs_cm'' ''deployment'' (deploymentFields d) = (Some res, None)
           \<and> Locator res = Some l
           \<and> d_Id (fst (snd (resourceDeploymentCreate c d tr))) = Namespace l @ '':'' @ Href l"
proof (cases "mustLock d")
  case Panic
  with assms show ?thesis by (simp add: resourceDeploymentCreate_def)
next
  case (Return must)
  obtain r e where cr: "Create c tr ''rs_cm'' ''deployment'' (deploymentFields d) = (r, e)"
    by (cases "Create c tr ''rs_cm'' ''deployment'' (deploymentFields d)")
  let ?tr1 = "tr @ [CallCreate ''rs_cm'' ''deployment'' (deploymentFields d)]"
  show ?thesis
  proof (cases e)
    case (Some a)
    with assms Return cr show ?thesis
      by (simp add: resourceDeploymentCreate_def client_Create_def split: option.splits)
  next
    case None
    note e_None = this
    show ?thesis
    proof (cases r)
      case None
      with assms Return cr e_None show ?thesis
        by (simp add: resourceDeploymentCreate_def client_Create_def)
    next
      case (Some res')
      show ?thesis
      proof (cases must)
        case False
        with assms Return cr e_None Some show ?thesis
          by (auto simp: resourceDeploymentCreate_def client_Create_def set_id_last_def
              Let_def split: option.splits)
      next
        case True
        obtain out tr2' where ul:
          "updateLock (copy_back d (Fields res')) c ?tr1 = (out, tr2')"
          by (cases "updateLock (copy_back d (Fields res')) c ?tr1")
        from assms Return cr e_None Some True ul
        show ?thesis
          by (cases out)
            (auto simp: resourceDeploymentCreate_def client_Create_def client_Delete_def
              set_id_last_def Let_def split: option.splits)
      qed
    qed
  qed
qed

text \<open>
  Claim C6. When the lock flag is not set and the create call returns a resource with
  a locator, \<^verbatim>\<open>resourceDeploymentCreate\<close> returns without an error and leaves as the
  identifier the locator's namespace, a colon and its href. Whenever
  \<^verbatim>\<open>resourceDeploymentCreate\<close> returns without an error, the identifier it leaves is
  built in that way from the locator the create call returned; parsing the resource
  data it leaves gives back exactly that locator when neither the namespace nor the
  href contains a colon, and fails with the invalid-resource-ID error when the href
  contains a colon.
\<close>

theorem create_id_roundtrip:
  "(mustLock d = Return False
      \<and> Create c tr ''rs_cm'' ''deployment'' (deploymentFields d) = (Some res, None)
      \<and> Locator res = Some l
    \<longrightarrow> fst (resourceDeploymentCreate c d tr) = Return None
        \<and> d_Id (fst (snd (resourceDeploymentCreate c d tr))) = Namespace l @ '':'' @ Href l)
   \<and> (fst (resourceDeploymentCreate c d tr) = Return None
    \<longrightarrow> (\<exists>res l. Create c tr ''rs_cm'' ''deployment'' (deploymentFields d) = (Some res, None)
           \<and> Locator res = Some l
           \<and> d_Id (fst (snd (resourceDeploymentCreate c d tr))) = Namespace l @ '':'' @ Href l
           \<and> (CHR '':'' \<notin> set (Namespace l) \<and> CHR '':'' \<notin> set (Href l) \<longrightarrow>
                locator (fst (snd (resourceDeploymentCreate c d tr))) = Inr l)
           \<and> (CHR '':'' \<in> set (Href l) \<longrightarrow>
                locator (fst (snd (resourceDeploymentCreate c d tr)))
                  = Inl (InvalidResourceID (Namespace l @ '':'' @ Href l)))))"
proof -
  let ?d' = "fst (snd (resourceDeploymentCreate c d tr))"
  have writes: "fst (resourceDeploymentCreate c d tr) = Return None
        \<and> d_Id ?d' = Namespace l @ '':'' @ Href l"
    if "mustLock d = Return False"
      "Create c tr ''rs_cm'' ''deployment'' (deploymentFields d) = (Some res, None)"
      "Locator res = Some l"
    using that
    by (simp add: resourceDeploymentCreate_def client_Create_def set_id_last_def Let_def)
  have parses: "\<exists>res l. Create c tr ''rs_cm'' ''deployment'' (deploymentFields d) = (Some res, None)
           \<and> Locator res = Some l
           \<and> d_Id ?d' = Namespace l @ '':'' @ Href l
           \<and> (CHR '':'' \<notin> set (Namespace l) \<and> CHR '':'' \<notin> set (Href l) \<longrightarrow>
                locator ?d' = Inr l)
           \<and> (CHR '':'' \<in> set (Href l) \<longrightarrow>
                locator ?d' = Inl (InvalidResourceID (Namespace l @ '':'' @ Href l)))"
    if ok: "fst (resourceDeploymentCreate c d tr) = Return None"
  proof -
    from create_success_id [OF ok] obtain res' l' where
      cr: "Create c tr ''rs_cm'' ''deployment'' (deploymentFields d) = (Some res', None)"
      and lo: "Locator res' = Some l'"
      and ident: "d_Id ?d' = Namespace l' @ '':'' @ Href l'"
      by blast
    from id_roundtrip [OF ident] cr lo ident show ?thesis by blast
  qed
  from writes parses show ?thesis by blast
qed

theorem create_id_roundtrip_witness:
  "fst (resourceDeploymentCreate (stub_client (Some deployment_1, None) None None)
          new_unlocked []) = Return None
   \<and> d_Id (fst (snd (resourceDeploymentCreate (stub_client (Some deployment_1, None) None None)
          new_unlocked []))) = ''rs_cm:/api/deployments/1''
   \<and> locator (fst (snd (resourceDeploymentCreate
          (stub_client (Some deployment_1, None) None None) new_unlocked [])))
       = Inr \<lparr>Namespace = ''rs_cm'', Href = ''/api/deployments/1''\<rparr>
   \<and> fst (resourceDeploymentCreate (stub_client (Some deployment_urn, None) None None)
          new_unlocked []) = Return None
   \<and> d_Id (fst (snd (resourceDeploymentCreate (stub_client (Some deployment_urn, None) None None)
          new_unlocked []))) = ''rs_cm:urn:1''
   \<and> locator (fst (snd (resourceDeploymentCreate
          (stub_client (Some deployment_urn, None) None None) new_unlocked [])))
       = Inl (InvalidResourceID ''rs_cm:urn:1'')"
proof -
  let ?l1 = "\<lparr>Namespace = ''rs_cm'', Href = ''/api/deployments/1''\<rparr>"
  let ?l2 = "\<lparr>Namespace = ''rs_cm'', Href = ''urn:1''\<rparr>"
  let ?c1 = "stub_client (Some deployment_1, None) None None"
  let ?c2 = "stub_client (Some deployment_urn, None) None None"
  let ?fs = "deploymentFields new_unlocked"
  have m: "mustLock new_unlocked = Return False"
    by (simp add: mustLock_def d_GetOk_def d_Get_def new_unlocked_def deploymentSchema_def
        Zero_def)
  have cr1: "Create ?c1 [] ''rs_cm'' ''deployment'' ?fs = (Some deployment_1, None)"
    and cr2: "Create ?c2 [] ''rs_cm'' ''deployment'' ?fs = (Some deployment_urn, None)"
    by (simp_all add: stub_client_def)
  have lo1: "Locator deployment_1 = Some ?l1" and lo2: "Locator deployment_urn = Some ?l2"
    by (simp_all add: deployment_1_def deployment_urn_def)
  note t1 = create_id_roundtrip [of new_unlocked ?c1 "[]" deployment_1 ?l1]
  note t2 = create_id_roundtrip [of new_unlocked ?c2 "[]" deployment_urn ?l2]
  from t1 m cr1 lo1 have w1: "fst (resourceDeploymentCreate ?c1 new_unlocked []) = Return None"
    and i1: "d_Id (fst (snd (resourceDeploymentCreate ?c1 new_unlocked [])))
               = ''rs_cm:/api/deployments/1''"
    by simp_all
  from t2 m cr2 lo2 have w2: "fst (resourceDeploymentCreate ?c2 new_unlocked []) = Return None"
    and i2: "d_Id (fst (snd (resourceDeploymentCreate ?c2 new_unlocked []))) = ''rs_cm:urn:1''"
    by simp_all
  from t1 w1 cr1 lo1
  have p1: "locator (fst (snd (resourceDeploymentCreate ?c1 new_unlocked []))) = Inr ?l1"
    by auto
  from t2 w2 cr2 lo2
  have p2: "locator (fst (snd (resourceDeploymentCreate ?c2 new_unlocked [])))
              = Inl (InvalidResourceID ''rs_cm:urn:1'')"
    by auto
  from w1 i1 p1 w2 i2 p2 show ?thesis by simp
qed

section \<open>The schema and the field map\<close>

text \<open>
  Claim C7. The validation callback of the schema's \<^verbatim>\<open>server_tag_scope\<close> attribute
  returns no warnings and no errors exactly when the value is the empty string,
  \<^verbatim>\<open>account\<close> or \<^verbatim>\<open>deployment\<close>; for every other value it returns no warnings and
  exactly one error.
\<close>

theorem server_tag_scope_validation:
  "(\<exists>s. deploymentSchema ''server_tag_scope'' = Some s
        \<and> ValidateFunc s = Some server_tag_scope_ValidateFunc)
   \<and> (server_tag_scope_ValidateFunc v k = ([], []) \<longleftrightarrow>
        v \<in> {VString '''', VString ''account'', VString ''deployment''})
   \<and> (v \<notin> {VString '''', VString ''account'', VString ''deployment''} \<longrightarrow>
        fst (server_tag_scope_ValidateFunc v k) = []
        \<and> length (snd (server_tag_scope_ValidateFunc v k)) = 1)"
  by (simp add: server_tag_scope_ValidateFunc_def deploymentSchema_def)

theorem server_tag_scope_validation_witness:
  "server_tag_scope_ValidateFunc (VString ''account'') ''server_tag_scope'' = ([], [])
   \<and> length (snd (server_tag_scope_ValidateFunc (VString ''region'') ''server_tag_scope'')) = 1
   \<and> length (snd (server_tag_scope_ValidateFunc (VBool True) ''server_tag_scope'')) = 1"
  using server_tag_scope_validation [of "VString ''account''" "''server_tag_scope''"]
    server_tag_scope_validation [of "VString ''region''" "''server_tag_scope''"]
    server_tag_scope_validation [of "VBool True" "''server_tag_scope''"]
  by simp

text \<open>
  Claim C10. The field map of \<^verbatim>\<open>deploymentFields\<close> always has the key \<^verbatim>\<open>name\<close>; it
  has each of \<^verbatim>\<open>description\<close>, \<^verbatim>\<open>resource_group_href\<close> and \<^verbatim>\<open>server_tag_scope\<close>
  exactly when that attribute is set to a value other than the empty string; it has no
  other key, so never \<^verbatim>\<open>locked\<close>; and every value in it is the attribute's value.
\<close>

theorem deploymentFields_keys:
  "dom (deploymentFields d) =
     {''name''} \<union> {k \<in> {''description'', ''resource_group_href'', ''server_tag_scope''}.
                       \<exists>v. attrs d k = Some v \<and> v \<noteq> VString ''''}
   \<and> ''locked'' \<notin> dom (deploymentFields d)
   \<and> (\<forall>k v. deploymentFields d k = Some v \<longrightarrow> v = d_Get d k)"
proof -
  have dom_eq: "dom (deploymentFields d) =
     {''name''} \<union> {k \<in> {''description'', ''resource_group_href'', ''server_tag_scope''}.
                       snd (d_GetOk d k)}"
    by (auto simp: deploymentFields_def Let_def d_GetOk_def split: if_splits)
  have vals: "\<forall>k v. deploymentFields d k = Some v \<longrightarrow> v = d_Get d k"
    by (auto simp: deploymentFields_def Let_def d_GetOk_def split: if_splits)
  have "{k \<in> {''description'', ''resource_group_href'', ''server_tag_scope''}. snd (d_GetOk d k)}
      = {k \<in> {''description'', ''resource_group_href'', ''server_tag_scope''}.
                       \<exists>v. attrs d k = Some v \<and> v \<noteq> VString ''''}"
    using GetOk_string_key[of _ d] by blast
  with dom_eq vals show ?thesis by auto
qed

theorem deploymentFields_keys_witness:
  "dom (deploymentFields
      \<lparr>d_Id = '''',
       attrs = [''name'' \<mapsto> VString ''web'', ''description'' \<mapsto> VString '''',
                ''locked'' \<mapsto> VBool True, ''server_tag_scope'' \<mapsto> VString ''account''],
       partial = False, partialMap = {}\<rparr>)
    = {''name'', ''server_tag_scope''}"
  using deploymentFields_keys
    [of "\<lparr>d_Id = '''',
       attrs = [''name'' \<mapsto> VString ''web'', ''description'' \<mapsto> VString '''',
                ''locked'' \<mapsto> VBool True, ''server_tag_scope'' \<mapsto> VString ''account''],
       partial = False, partialMap = {}\<rparr>"]
  by auto

section \<open>Create\<close>

text \<open>
  A nil \<^verbatim>\<open>locked\<close> field in the resource the create call returns clears the lock flag
  on copy-back, so the lock step that follows runs the unlock script: on an existing,
  locked deployment and a client that refuses only the lock script, create returns
  without an error.
\<close>

lemma d_Get_copy_back_nil:
  "fs ''locked'' = Some VNil \<Longrightarrow> d_Get (copy_back d fs) ''locked'' = VBool False"
  by (simp add: d_Get_def copy_back_def d_Set_def deploymentSchema_def Zero_def)

lemma create_nil_lock_unlocks:
  "resourceDeploymentCreate (picky_client deployment_nil_lock ''@res.lock()'') existing []
     = (Return None,
        d_SetId (d_Set (copy_back existing (Fields deployment_nil_lock)) ''locked'' (VBool True))
          ''rs_cm:/api/deployments/1'',
        [CallCreate ''rs_cm'' ''deployment'' (deploymentFields existing),
         CallRun (Some \<lparr>Namespace = ''rs_cm'', Href = ''/api/deployments/1''\<rparr>)
           ''@res.unlock()''])"
proof -
  let ?c = "picky_client deployment_nil_lock ''@res.lock()''"
  let ?loc = "\<lparr>Namespace = ''rs_cm'', Href = ''/api/deployments/1''\<rparr>"
  let ?d1 = "copy_back existing (Fields deployment_nil_lock)"
  have m: "mustLock existing = Return True"
    by (simp add: mustLock_def d_GetOk_def d_Get_def existing_def deploymentSchema_def Zero_def)
  have loc: "locator ?d1 = Inr ?loc"
    by (simp add: locator_Inr_iff Split_two_iff existing_def)
  have lk: "d_Get ?d1 ''locked'' = VBool False"
    by (rule d_Get_copy_back_nil) (simp add: deployment_nil_lock_def)
  have ul: "updateLock ?d1 ?c tr = (Return None, tr @ [CallRun (Some ?loc) ''@res.unlock()''])"
    for tr
    by (simp add: updateLock_def loc lk client_Run_def picky_client_def)
  have lo: "Locator deployment_nil_lock = Some ?loc"
    by (simp add: deployment_nil_lock_def)
  show ?thesis
    by (simp add: resourceDeploymentCreate_def m client_Create_def
        picky_client_def [of _ "''@res.lock()''"] ul [unfolded picky_client_def]
        set_id_last_def lo)
qed

text \<open>
  Claim C1. When the lock flag is set, the create call has returned a resource and the
  lock step on the copied-back resource data fails with an error, create issues a
  delete of the locator of the created resource as its last call, returns the error of
  the lock step whatever that delete answers, and leaves the identifier as it was.
  In every run of create, the identifier differs at the end from what it was only if
  create returned without an error, and then every remote call it issued had come back
  without an error.
\<close>

theorem create_lock_failure:
  "(mustLock d = Return True
      \<and> Create c tr ''rs_cm'' ''deployment'' (deploymentFields d) = (Some res, None)
      \<and> updateLock (copy_back d (Fields res)) c
            (tr @ [CallCreate ''rs_cm'' ''deployment'' (deploymentFields d)])
          = (Return (Some err), tr2)
    \<longrightarrow> resourceDeploymentCreate c d tr
          = (Return (Some err), copy_back d (Fields res), tr2 @ [CallDelete (Locator res)])
        \<and> d_Id (copy_back d (Fields res)) = d_Id d)
   \<and> (d_Id (fst (snd (resourceDeploymentCreate c d tr))) \<noteq> d_Id d
    \<longrightarrow> fst (resourceDeploymentCreate c d tr) = Return None
        \<and> (\<exists>new. snd (snd (resourceDeploymentCreate c d tr)) = tr @ new
               \<and> new \<noteq> [] \<and> calls_succeed c tr new))"
proof -
  let ?tr1 = "tr @ [CallCreate ''rs_cm'' ''deployment'' (deploymentFields d)]"
  have part1: "resourceDeploymentCreate c d tr
          = (Return (Some err), copy_back d (Fields res), tr2 @ [CallDelete (Locator res)])"
    if "mustLock d = Return True"
      "Create c tr ''rs_cm'' ''deployment'' (deploymentFields d) = (Some res, None)"
      "updateLock (copy_back d (Fields res)) c ?tr1 = (Return (Some err), tr2)"
    using that
    by (simp add: resourceDeploymentCreate_def client_Create_def client_Delete_def)
  have part2: "fst (resourceDeploymentCreate c d tr) = Return None
        \<and> (\<exists>new. snd (snd (resourceDeploymentCreate c d tr)) = tr @ new
               \<and> new \<noteq> [] \<and> calls_succeed c tr new)"
    if changed: "d_Id (fst (snd (resourceDeploymentCreate c d tr))) \<noteq> d_Id d"
  proof (cases "mustLock d")
    case Panic
    with changed show ?thesis by (simp add: resourceDeploymentCreate_def)
  next
    case (Return must)
    obtain r e where cr: "Create c tr ''rs_cm'' ''deployment'' (deploymentFields d) = (r, e)"
      by (cases "Create c tr ''rs_cm'' ''deployment'' (deploymentFields d)")
    show ?thesis
    proof (cases e)
      case (Some a)
      with changed Return cr show ?thesis
        by (simp add: resourceDeploymentCreate_def client_Create_def split: option.splits)
    next
      case None
      note e_None = this
      show ?thesis
      proof (cases r)
        case None
        with changed Return cr e_None show ?thesis
          by (simp add: resourceDeploymentCreate_def client_Create_def)
      next
        case (Some res')
        show ?thesis
        proof (cases must)
          case False
          with changed Return cr e_None Some show ?thesis
            by (auto simp: resourceDeploymentCreate_def client_Create_def set_id_last_def
                Let_def split: option.splits)
        next
          case True
          obtain out tr2' where ul:
            "updateLock (copy_back d (Fields res')) c ?tr1 = (out, tr2')"
            by (cases "updateLock (copy_back d (Fields res')) c ?tr1")
          from updateLock_trace[OF ul] changed Return cr e_None Some True ul
          show ?thesis
            by (cases out)
              (auto simp: resourceDeploymentCreate_def client_Create_def client_Delete_def
                set_id_last_def Let_def split: option.splits)
        qed
      qed
    qed
  qed
  from part1 part2 show ?thesis by simp
qed

theorem create_lock_failure_witness:
  "resourceDeploymentCreate
      (stub_client (Some deployment_1, None) (Some (ClientError ''lock refused''))
         (Some (ClientError ''delete refused'')))
      existing []
    = (Return (Some (ClientError ''lock refused'')),
       copy_back existing (Fields deployment_1),
       [CallCreate ''rs_cm'' ''deployment'' (deploymentFields existing),
        CallRun (Some \<lparr>Namespace = ''rs_cm'', Href = ''/api/deployments/1''\<rparr>) ''@res.lock()'',
        CallDelete (Locator deployment_1)])
   \<and> d_Id (copy_back existing (Fields deployment_1)) = ''rs_cm:/api/deployments/1''
   \<and> resourceDeploymentCreate (picky_client deployment_nil_lock ''@res.unlock()'') existing []
    = (Return (Some (ClientError ''refused'')),
       copy_back existing (Fields deployment_nil_lock),
       [CallCreate ''rs_cm'' ''deployment'' (deploymentFields existing),
        CallRun (Some \<lparr>Namespace = ''rs_cm'', Href = ''/api/deployments/1''\<rparr>)
          ''@res.unlock()'',
        CallDelete (Locator deployment_nil_lock)])
   \<and> d_Id (fst (snd (resourceDeploymentCreate (stub_client (Some deployment_1, None) None None)
              new_unlocked [])))
       = ''rs_cm:/api/deployments/1''
   \<and> fst (resourceDeploymentCreate (stub_client (Some deployment_1, None) None None)
              new_unlocked [])
       = Return None"
proof -
  let ?c = "stub_client (Some deployment_1, None) (Some (ClientError ''lock refused''))
         (Some (ClientError ''delete refused''))"
  let ?tr1 = "[CallCreate ''rs_cm'' ''deployment'' (deploymentFields existing)]"
  let ?loc = "\<lparr>Namespace = ''rs_cm'', Href = ''/api/deployments/1''\<rparr>"
  have m: "mustLock existing = Return True"
    by (simp add: mustLock_def d_GetOk_def d_Get_def existing_def deploymentSchema_def Zero_def)
  have cr: "Create ?c [] ''rs_cm'' ''deployment'' (deploymentFields existing)
             = (Some deployment_1, None)"
    by (simp add: stub_client_def)
  have loc: "locator (copy_back existing (Fields deployment_1)) = Inr ?loc"
    by (simp add: locator_Inr_iff Split_two_iff existing_def)
  have lk: "d_Get (copy_back existing (Fields deployment_1)) ''locked'' = VBool True"
    by (simp add: d_Get_def copy_back_def existing_def deployment_1_def)
  have ul: "updateLock (copy_back existing (Fields deployment_1)) ?c ([] @ ?tr1)
             = (Return (Some (ClientError ''lock refused'')),
                ?tr1 @ [CallRun (Some ?loc) ''@res.lock()''])"
    by (simp add: updateLock_def loc lk client_Run_def stub_client_def)
  have first: "resourceDeploymentCreate ?c existing []
    = (Return (Some (ClientError ''lock refused'')),
       copy_back existing (Fields deployment_1),
       (?tr1 @ [CallRun (Some ?loc) ''@res.lock()'']) @ [CallDelete (Locator deployment_1)])"
    using create_lock_failure [of existing ?c "[]" deployment_1
        "ClientError ''lock refused''" "?tr1 @ [CallRun (Some ?loc) ''@res.lock()'']"]
      m cr ul
    by blast
  have ident: "d_Id (copy_back existing (Fields deployment_1)) = ''rs_cm:/api/deployments/1''"
    by (simp add: existing_def)
  let ?p = "picky_client deployment_nil_lock ''@res.unlock()''"
  let ?dn = "copy_back existing (Fields deployment_nil_lock)"
  have crn: "Create ?p [] ''rs_cm'' ''deployment'' (deploymentFields existing)
             = (Some deployment_nil_lock, None)"
    by (simp add: picky_client_def)
  have locn: "locator ?dn = Inr ?loc"
    by (simp add: locator_Inr_iff Split_two_iff existing_def)
  have lkn: "d_Get ?dn ''locked'' = VBool False"
    by (rule d_Get_copy_back_nil) (simp add: deployment_nil_lock_def)
  have uln: "updateLock ?dn ?p ([] @ ?tr1)
             = (Return (Some (ClientError ''refused'')),
                ?tr1 @ [CallRun (Some ?loc) ''@res.unlock()''])"
    by (simp add: updateLock_def locn lkn client_Run_def picky_client_def)
  have nil_lock: "resourceDeploymentCreate ?p existing []
    = (Return (Some (ClientError ''refused'')), ?dn,
       (?tr1 @ [CallRun (Some ?loc) ''@res.unlock()''])
         @ [CallDelete (Locator deployment_nil_lock)])"
    using create_lock_failure [of existing ?p "[]" deployment_nil_lock
        "ClientError ''refused''" "?tr1 @ [CallRun (Some ?loc) ''@res.unlock()'']"]
      m crn uln
    by blast
  let ?c2 = "stub_client (Some deployment_1, None) None None"
  have m2: "mustLock new_unlocked = Return False"
    by (simp add: mustLock_def d_GetOk_def d_Get_def new_unlocked_def deploymentSchema_def
        Zero_def)
  have cr2: "resourceDeploymentCreate ?c2 new_unlocked []
     = set_id_last (copy_back new_unlocked (Fields deployment_1)) deployment_1
         [CallCreate ''rs_cm'' ''deployment'' (deploymentFields new_unlocked)]"
    by (simp add: resourceDeploymentCreate_def m2 client_Create_def stub_client_def)
  have third: "d_Id (fst (snd (resourceDeploymentCreate ?c2 new_unlocked [])))
       = ''rs_cm:/api/deployments/1''"
    unfolding cr2 by (simp add: set_id_last_def deployment_1_def)
  have "d_Id new_unlocked = ''''"
    by (simp add: new_unlocked_def)
  with third have changed:
    "d_Id (fst (snd (resourceDeploymentCreate ?c2 new_unlocked []))) \<noteq> d_Id new_unlocked"
    by simp
  have second: "fst (resourceDeploymentCreate ?c2 new_unlocked []) = Return None"
    using create_lock_failure [of new_unlocked ?c2 "[]"] changed by blast
  from first ident nil_lock third second show ?thesis by simp
qed

text \<open>
  Claim C2. When the lock flag is set and the identifier is empty at the start (a new
  resource), create never returns without an error. The lock helper, run on the
  resource data after any copy-back and with any trace, fails on the locator parse of
  the empty identifier and issues no call, so the calls create issues contain no lock
  call; and when the create call has returned a resource, create issues the
  compensating delete (its calls are the create call and the delete of the returned
  locator), returns the invalid-resource-ID error and leaves the identifier empty.
\<close>

theorem create_with_lock_never_succeeds:
  assumes "mustLock d = Return True" and "d_Id d = ''''"
  shows "fst (resourceDeploymentCreate c d tr) \<noteq> Return None
     \<and> updateLock (copy_back d fs) c tr' = (Return (Some (InvalidResourceID '''')), tr')
     \<and> (\<exists>new. snd (snd (resourceDeploymentCreate c d tr)) = tr @ new
            \<and> (\<forall>x \<in> set new. \<forall>loc rcl. x \<noteq> CallRun loc rcl))
     \<and> (Create c tr ''rs_cm'' ''deployment'' (deploymentFields d) = (Some res, None) \<longrightarrow>
          resourceDeploymentCreate c d tr
            = (Return (Some (InvalidResourceID '''')), copy_back d (Fields res),
               tr @ [CallCreate ''rs_cm'' ''deployment'' (deploymentFields d),
                     CallDelete (Locator res)])
          \<and> d_Id (copy_back d (Fields res)) = '''')"
proof -
  have ul: "updateLock (copy_back d fs) c tr' = (Return (Some (InvalidResourceID '''')), tr')"
    for fs tr'
    using assms(2) by (simp add: updateLock_no_parse locator_empty_Id)
  obtain r e where cr: "Create c tr ''rs_cm'' ''deployment'' (deploymentFields d) = (r, e)"
    by (cases "Create c tr ''rs_cm'' ''deployment'' (deploymentFields d)")
  have run: "resourceDeploymentCreate c d tr =
      (case e of
         Some err \<Rightarrow>
           (Return (Some err), d,
            tr @ [CallCreate ''rs_cm'' ''deployment'' (deploymentFields d)])
       | None \<Rightarrow>
          (case r of
             None \<Rightarrow> (Panic, d, tr @ [CallCreate ''rs_cm'' ''deployment'' (deploymentFields d)])
           | Some res \<Rightarrow>
               (Return (Some (InvalidResourceID '''')), copy_back d (Fields res),
                tr @ [CallCreate ''rs_cm'' ''deployment'' (deploymentFields d),
                      CallDelete (Locator res)])))"
    using assms(1) cr
    by (simp add: resourceDeploymentCreate_def client_Create_def client_Delete_def ul
        split: option.splits)
  have never: "fst (resourceDeploymentCreate c d tr) \<noteq> Return None"
    by (simp add: run split: option.splits)
  have norun: "\<exists>new. snd (snd (resourceDeploymentCreate c d tr)) = tr @ new
            \<and> (\<forall>x \<in> set new. \<forall>loc rcl. x \<noteq> CallRun loc rcl)"
    by (auto simp: run split: option.splits)
  have path: "resourceDeploymentCreate c d tr
            = (Return (Some (InvalidResourceID '''')), copy_back d (Fields res),
               tr @ [CallCreate ''rs_cm'' ''deployment'' (deploymentFields d),
                     CallDelete (Locator res)])"
    if "Create c tr ''rs_cm'' ''deployment'' (deploymentFields d) = (Some res, None)"
    using that cr by (simp add: run)
  have "d_Id (copy_back d (Fields res)) = ''''"
    using assms(2) by simp
  with never ul norun path show ?thesis by blast
qed

theorem create_with_lock_never_succeeds_witness:
  "mustLock new_locked = Return True \<and> d_Id new_locked = ''''
   \<and> resourceDeploymentCreate (stub_client (Some deployment_1, None) None None) new_locked []
      = (Return (Some (InvalidResourceID '''')), copy_back new_locked (Fields deployment_1),
         [CallCreate ''rs_cm'' ''deployment'' (deploymentFields new_locked),
          CallDelete (Locator deployment_1)])"
proof -
  have m: "mustLock new_locked = Return True"
    by (simp add: mustLock_def d_GetOk_def d_Get_def new_locked_def deploymentSchema_def Zero_def)
  have i: "d_Id new_locked = ''''"
    by (simp add: new_locked_def)
  have cr: "Create (stub_client (Some deployment_1, None) None None) [] ''rs_cm'' ''deployment''
              (deploymentFields new_locked) = (Some deployment_1, None)"
    by (simp add: stub_client_def)
  from create_with_lock_never_succeeds
    [OF m i, of "stub_client (Some deployment_1, None) None None" "[]" _ _ deployment_1] cr m i
  show ?thesis by simp
qed

section \<open>Read, exists and delete\<close>

text \<open>
  Claim C4. When the identifier parses and the client's \<^verbatim>\<open>Get\<close> returns an error: if
  the error is the not-found sentinel, read sets the identifier to the empty string and
  returns no error; for every other error, read returns that error and leaves the
  resource data, the identifier among them, as they were.
\<close>

theorem read_not_found:
  assumes "locator d = Inr loc" and "Get c tr (Some loc) = (res, Some err)"
  shows "(err = ErrNotFound \<longrightarrow>
            resourceRead c d tr = (Return None, d\<lparr>d_Id := ''''\<rparr>, tr @ [CallGet (Some loc)]))
       \<and> (err \<noteq> ErrNotFound \<longrightarrow>
            resourceRead c d tr = (Return (Some err), d, tr @ [CallGet (Some loc)]))"
  using assms
  by (simp add: resourceRead_def client_Get_def handleRSCError_def d_SetId_def
      split: option.splits)

theorem read_not_found_witness:
  "resourceRead (stub_client (None, Some ErrNotFound) None None) existing []
     = (Return None, existing\<lparr>d_Id := ''''\<rparr>,
        [CallGet (Some \<lparr>Namespace = ''rs_cm'', Href = ''/api/deployments/1''\<rparr>)])
   \<and> resourceRead (stub_client (None, Some (ClientError ''timeout'')) None None) existing []
     = (Return (Some (ClientError ''timeout'')), existing,
        [CallGet (Some \<lparr>Namespace = ''rs_cm'', Href = ''/api/deployments/1''\<rparr>)])"
proof -
  let ?loc = "\<lparr>Namespace = ''rs_cm'', Href = ''/api/deployments/1''\<rparr>"
  have l: "locator existing = Inr ?loc"
    by (simp add: locator_Inr_iff Split_two_iff existing_def)
  have g1: "Get (stub_client (None, Some ErrNotFound) None None) [] (Some ?loc)
              = (None, Some ErrNotFound)"
    and g2: "Get (stub_client (None, Some (ClientError ''timeout'')) None None) [] (Some ?loc)
              = (None, Some (ClientError ''timeout''))"
    by (simp_all add: stub_client_def)
  from read_not_found [OF l g1] read_not_found [OF l g2] show ?thesis by simp
qed

text \<open>
  Claim C9. When the identifier parses and the client's \<^verbatim>\<open>Get\<close> returns the not-found
  sentinel, the existence check returns false together with that error and leaves the
  resource data as they were, whereas read at the same input returns no error.
\<close>

theorem exists_not_found:
  assumes "locator d = Inr loc" and "Get c tr (Some loc) = (res, Some ErrNotFound)"
  shows "resourceExists c d tr
           = (Return (False, Some ErrNotFound), d, tr @ [CallGet (Some loc)])
       \<and> fst (resourceRead c d tr) = Return None"
  using assms
  by (simp add: resourceExists_def resourceRead_def client_Get_def handleRSCError_def
      split: option.splits)

theorem exists_not_found_witness:
  "resourceExists (stub_client (None, Some ErrNotFound) None None) existing []
     = (Return (False, Some ErrNotFound), existing,
        [CallGet (Some \<lparr>Namespace = ''rs_cm'', Href = ''/api/deployments/1''\<rparr>)])"
proof -
  let ?loc = "\<lparr>Namespace = ''rs_cm'', Href = ''/api/deployments/1''\<rparr>"
  have l: "locator existing = Inr ?loc"
    by (simp add: locator_Inr_iff Split_two_iff existing_def)
  have g1: "Get (stub_client (None, Some ErrNotFound) None None) [] (Some ?loc)
              = (None, Some ErrNotFound)"
    by (simp add: stub_client_def)
  from exists_not_found [OF l g1] show ?thesis by simp
qed

text \<open>
  Claim C8. Delete leaves the resource data, the identifier among them, as they were,
  whatever happens. When the identifier parses, it issues one \<^verbatim>\<open>Delete\<close> call for the
  parsed locator and returns what the client answered, an error or none; when the
  identifier does not parse, it returns the parse error and issues no call.
\<close>

theorem delete_passes_through:
  "fst (snd (resourceDelete c d tr)) = d
   \<and> (locator d = Inr loc \<longrightarrow>
        resourceDelete c d tr
          = (Return (Delete c tr (Some loc)), d, tr @ [CallDelete (Some loc)]))
   \<and> (locator d = Inl e \<longrightarrow> resourceDelete c d tr = (Return (Some e), d, tr))"
  by (simp add: resourceDelete_def client_Delete_def split: sum.splits)

theorem delete_passes_through_witness:
  "resourceDelete (stub_client (None, None) None (Some (ClientError ''deployment is locked'')))
      existing []
     = (Return (Some (ClientError ''deployment is locked'')), existing,
        [CallDelete (Some \<lparr>Namespace = ''rs_cm'', Href = ''/api/deployments/1''\<rparr>)])
   \<and> resourceDelete (stub_client (None, None) None None) existing []
     = (Return None, existing,
        [CallDelete (Some \<lparr>Namespace = ''rs_cm'', Href = ''/api/deployments/1''\<rparr>)])"
proof -
  let ?loc = "\<lparr>Namespace = ''rs_cm'', Href = ''/api/deployments/1''\<rparr>"
  have l: "locator existing = Inr ?loc"
    by (simp add: locator_Inr_iff Split_two_iff existing_def)
  from delete_passes_through
    [of "stub_client (None, None) None (Some (ClientError ''deployment is locked''))"
      existing "[]" ?loc]
    delete_passes_through [of "stub_client (None, None) None None" existing "[]" ?loc] l
  show ?thesis by (simp add: stub_client_def)
qed

section \<open>The remote calls of read, delete and update\<close>

lemma updateLock_bool:
  "locator d = Inr loc \<Longrightarrow> d_Get d ''locked'' = VBool b \<Longrightarrow>
     updateLock d c tr =
       (Return (Run c tr (Some loc) (if b then ''@res.lock()'' else ''@res.unlock()'')),
        tr @ [CallRun (Some loc) (if b then ''@res.lock()'' else ''@res.unlock()'')])"
  by (simp add: updateLock_def client_Run_def)

text \<open>
  Claim C5, as stated, fails for update: on resource data of an existing, locked
  deployment and a client that answers every call without an error, update issues two
  remote calls, the lock call and then the update call.
\<close>

theorem update_two_calls_counterexample:
  "snd (snd (resourceDeploymentUpdate handleRSCError
               (stub_client (Some deployment_1, None) None None) existing []))
     = [CallRun (Some \<lparr>Namespace = ''rs_cm'', Href = ''/api/deployments/1''\<rparr>) ''@res.lock()'',
        CallUpdate (Some \<lparr>Namespace = ''rs_cm'', Href = ''/api/deployments/1''\<rparr>)
          (deploymentFields existing)]
   \<and> length (snd (snd (resourceDeploymentUpdate handleRSCError
               (stub_client (Some deployment_1, None) None None) existing []))) = 2"
proof -
  let ?loc = "\<lparr>Namespace = ''rs_cm'', Href = ''/api/deployments/1''\<rparr>"
  let ?c = "stub_client (Some deployment_1, None) None None"
  let ?d = "d_Partial existing True"
  have l: "locator ?d = Inr ?loc"
    by (simp add: locator_Inr_iff Split_two_iff existing_def)
  have g: "d_Get ?d ''locked'' = VBool True"
    by (simp add: d_Get_def existing_def)
  have f: "deploymentFields (d_SetPartial ?d ''locked'') = deploymentFields existing"
    by (rule deploymentFields_cong_attrs) simp
  have r: "Run ?c tr (Some ?loc) rcl = None" "Update ?c tr (Some ?loc) fs = None" for tr rcl fs
    by (simp_all add: stub_client_def)
  have "snd (snd (resourceDeploymentUpdate handleRSCError ?c existing []))
     = [CallRun (Some ?loc) ''@res.lock()'', CallUpdate (Some ?loc) (deploymentFields existing)]"
    by (simp add: resourceDeploymentUpdate_def Let_def l updateLock_bool [OF l g] r f
        client_Update_def)
  then show ?thesis by simp
qed

text \<open>
  Claim C5, amended. Read and delete each parse the locator and, when it parses, issue
  exactly one remote call, \<^verbatim>\<open>Get\<close> or \<^verbatim>\<open>Delete\<close> of the parsed locator. Update parses
  the locator and, when it parses and the lock flag reads as a boolean, issues one
  \<^verbatim>\<open>Run\<close> call (lock when the flag is true, unlock otherwise) and, only when that call
  comes back without an error, one \<^verbatim>\<open>Update\<close> call with the deployment's fields: two
  calls in all, or one when the lock step fails. None of the three issues a call when
  the identifier does not parse.
\<close>

theorem lifecycle_remote_calls:
  "(locator d = Inl e \<longrightarrow>
        snd (snd (resourceRead c d tr)) = tr
      \<and> snd (snd (resourceDelete c d tr)) = tr
      \<and> snd (snd (resourceDeploymentUpdate h c d tr)) = tr)
   \<and> (locator d = Inr loc \<longrightarrow>
        snd (snd (resourceRead c d tr)) = tr @ [CallGet (Some loc)]
      \<and> snd (snd (resourceDelete c d tr)) = tr @ [CallDelete (Some loc)])
   \<and> (locator d = Inr loc \<and> d_Get d ''locked'' = VBool b \<longrightarrow>
        snd (snd (resourceDeploymentUpdate h c d tr))
          = (let rcl = (if b then ''@res.lock()'' else ''@res.unlock()'') in
             if Run c tr (Some loc) rcl = None
             then tr @ [CallRun (Some loc) rcl, CallUpdate (Some loc) (deploymentFields d)]
             else tr @ [CallRun (Some loc) rcl]))"
proof -
  let ?d = "d_Partial d True"
  have lp: "locator ?d = locator d"
    by (rule locator_cong_Id) simp
  have gp: "d_Get ?d ''locked'' = d_Get d ''locked''"
    by (rule d_Get_cong_attrs) simp
  have fp: "deploymentFields (d_SetPartial ?d ''locked'') = deploymentFields d"
    by (rule deploymentFields_cong_attrs) simp
  have fail: "snd (snd (resourceRead c d tr)) = tr
      \<and> snd (snd (resourceDelete c d tr)) = tr
      \<and> snd (snd (resourceDeploymentUpdate h c d tr)) = tr"
    if "locator d = Inl e"
    using that lp
    by (simp add: resourceRead_def resourceDelete_def resourceDeploymentUpdate_def Let_def)
  have one: "snd (snd (resourceRead c d tr)) = tr @ [CallGet (Some loc)]
      \<and> snd (snd (resourceDelete c d tr)) = tr @ [CallDelete (Some loc)]"
    if "locator d = Inr loc"
    using that
    by (simp add: resourceRead_def resourceDelete_def client_Get_def client_Delete_def
        split: prod.splits option.splits)
  have two: "snd (snd (resourceDeploymentUpdate h c d tr))
          = (let rcl = (if b then ''@res.lock()'' else ''@res.unlock()'') in
             if Run c tr (Some loc) rcl = None
             then tr @ [CallRun (Some loc) rcl, CallUpdate (Some loc) (deploymentFields d)]
             else tr @ [CallRun (Some loc) rcl])"
    if l: "locator d = Inr loc" and g: "d_Get d ''locked'' = VBool b"
  proof -
    from l lp have l': "locator ?d = Inr loc" by simp
    from g gp have g': "d_Get ?d ''locked'' = VBool b" by simp
    show ?thesis
      by (simp add: resourceDeploymentUpdate_def Let_def l' updateLock_bool [OF l' g'] fp
          client_Update_def split: prod.splits option.splits)
  qed
  from fail one two show ?thesis by blast
qed

theorem lifecycle_remote_calls_witness:
  "snd (snd (resourceRead (stub_client (Some deployment_1, None) None None) existing []))
     = [CallGet (Some \<lparr>Namespace = ''rs_cm'', Href = ''/api/deployments/1''\<rparr>)]
   \<and> snd (snd (resourceDelete (stub_client (Some deployment_1, None) None None) existing []))
     = [CallDelete (Some \<lparr>Namespace = ''rs_cm'', Href = ''/api/deployments/1''\<rparr>)]
   \<and> snd (snd (resourceDeploymentUpdate handleRSCError
               (stub_client (Some deployment_1, None) None None) existing []))
     = [CallRun (Some \<lparr>Namespace = ''rs_cm'', Href = ''/api/deployments/1''\<rparr>) ''@res.lock()'',
        CallUpdate (Some \<lparr>Namespace = ''rs_cm'', Href = ''/api/deployments/1''\<rparr>)
          (deploymentFields existing)]
   \<and> snd (snd (resourceDeploymentUpdate handleRSCError
               (stub_client (Some deployment_1, None) (Some (ClientError ''lock refused'')) None)
               existing []))
     = [CallRun (Some \<lparr>Namespace = ''rs_cm'', Href = ''/api/deployments/1''\<rparr>) ''@res.lock()'']
   \<and> snd (snd (resourceDeploymentUpdate handleRSCError
               (stub_client (Some deployment_1, None) None None) new_locked []))
     = []"
proof -
  let ?loc = "\<lparr>Namespace = ''rs_cm'', Href = ''/api/deployments/1''\<rparr>"
  let ?c = "stub_client (Some deployment_1, None) None None"
  let ?c2 = "stub_client (Some deployment_1, None) (Some (ClientError ''lock refused'')) None"
  have l: "locator existing = Inr ?loc"
    by (simp add: locator_Inr_iff Split_two_iff existing_def)
  have g: "d_Get existing ''locked'' = VBool True"
    by (simp add: d_Get_def existing_def)
  have n: "locator new_locked = Inl (InvalidResourceID '''')"
    by (simp add: locator_empty_Id new_locked_def)
  have r: "Run ?c [] (Some ?loc) ''@res.lock()'' = None"
    "Run ?c2 [] (Some ?loc) ''@res.lock()'' \<noteq> None"
    by (simp_all add: stub_client_def)
  from lifecycle_remote_calls [of existing _ ?c "[]" handleRSCError ?loc True]
    lifecycle_remote_calls [of existing _ ?c2 "[]" handleRSCError ?loc True]
    lifecycle_remote_calls [of new_locked "InvalidResourceID ''''" ?c "[]" handleRSCError]
    l g n r
  show ?thesis by simp
qed

end
